theory Spec2Isabelle
  imports Complex_Main
begin

section \<open>Data model\<close>

text \<open>
  The chart generator \<^verbatim>\<open>analyzeAudioAndGenerateChart\<close> works on JavaScript numbers.
  Samples, loudness values and times are modelled as real numbers: IEEE rounding, NaN and
  the infinities are not part of the model. Indices, counters, lane and layer numbers are
  naturals. Division is the division of HOL, where \<open>x / 0 = 0\<close>; the three divisors of the
  loop are the frame length (2048 on every analysed window), the length of a history
  that has just been pushed to, and the sample rate of an \<^verbatim>\<open>AudioBuffer\<close>, which the
  browser keeps positive. No theorem below depends on the value of a division by zero.
\<close>

datatype HandType = left | right

datatype CutDirection = UP | DOWN | LEFT | RIGHT | ANY

text \<open>
  The object literal pushed by the generator has the six fields \<^verbatim>\<open>id\<close>, \<^verbatim>\<open>time\<close>,
  \<^verbatim>\<open>lineIndex\<close>, \<^verbatim>\<open>lineLayer\<close>, \<^verbatim>\<open>type\<close> and \<^verbatim>\<open>cutDirection\<close>. The properties
  \<^verbatim>\<open>hit\<close> and \<^verbatim>\<open>missed\<close> are written by the game (\<^verbatim>\<open>n.hit = false\<close> in
  \<^verbatim>\<open>startGame\<close>, \<^verbatim>\<open>note.hit = true\<close> in the collision loop); a property that is
  absent from the object is \<open>None\<close>.
\<close>

record NoteData =
  note_id :: string
  time :: real
  lineIndex :: nat
  lineLayer :: nat
  hand :: HandType
  cutDirection :: CutDirection
  hit :: "bool option"
  missed :: "bool option"

record AudioBuffer =
  channel0 :: "real list"
  sampleRate :: real

text \<open>The variables that the analysis loop mutates.\<close>

record analysis =
  energyHistory :: "real list"
  fluxHistory :: "real list"
  lastNoteTime :: real
  lastHand :: HandType
  next_id :: nat
  "notes" :: "NoteData list"
  prevSpectrum :: "real list option"

definition MIN_NOTE_GAP :: real where
  "MIN_NOTE_GAP = 0.12"

definition windowSize :: nat where
  "windowSize = 2048"

definition hopSize :: nat where
  "hopSize = 512"

definition historySize :: nat where
  "historySize = 50"

definition initial :: analysis where
  "initial = \<lparr>energyHistory = [], fluxHistory = [], lastNoteTime = 0, lastHand = right,
     next_id = 0, notes = [], prevSpectrum = None\<rparr>"

section \<open>Frame analysis\<close>

text \<open>\<^verbatim>\<open>data.slice(i, j)\<close> for \<open>0 \<le> i \<le> j\<close>: the elements from \<open>i\<close> up to, not including, \<open>j\<close>,
  cut at the end of the array.\<close>

definition slice :: "'a list \<Rightarrow> nat \<Rightarrow> nat \<Rightarrow> 'a list" where
  "slice xs i j = take (j - i) (drop i xs)"

text \<open>\<^verbatim>\<open>Math.sqrt(frame.reduce((s, v) => s + v * v, 0) / frame.length)\<close>\<close>

definition rms_of :: "real list \<Rightarrow> real" where
  "rms_of frame = sqrt (foldl (\<lambda>s v. s + v * v) 0 frame / real (length frame))"

text \<open>
  An element of the \<^verbatim>\<open>Float32Array\<close> is a number or NaN. The chart generator is modelled
  on buffers of numbers (\<open>real list\<close>); \<open>sample\<close> is used where the source treats NaN
  apart, which is the \<^verbatim>\<open>||\<close> of line 43.
\<close>

datatype sample = Num real | NaN

text \<open>\<^verbatim>\<open>frame[k]\<close>: the element, or \<^verbatim>\<open>undefined\<close> (\<open>None\<close>) past the end.\<close>

definition element :: "'a list \<Rightarrow> nat \<Rightarrow> 'a option" where
  "element xs k = (if k < length xs then Some (xs ! k) else None)"

text \<open>\<^verbatim>\<open>x || 0\<close>: the left operand when it is truthy, otherwise 0. The falsy operands are
  \<^verbatim>\<open>undefined\<close>, NaN and the number 0.\<close>

definition or_zero :: "sample option \<Rightarrow> real" where
  "or_zero x =
     (case x of
        None \<Rightarrow> 0
      | Some NaN \<Rightarrow> 0
      | Some (Num v) \<Rightarrow> (if v = 0 then 0 else v))"



text \<open>\<^verbatim>\<open>frame[k] || 0\<close> on a frame of numbers.\<close>

definition sample_or_zero :: "real list \<Rightarrow> nat \<Rightarrow> real" where
  "sample_or_zero frame k = or_zero (element (map Num frame) k)"

definition spectrum_of :: "real list \<Rightarrow> real list" where
  "spectrum_of frame = map (\<lambda>j. \<bar>sample_or_zero frame (j * 4)\<bar>) [0..<40]"

text \<open>The flux loop: \<^verbatim>\<open>diff = spectrum[j] - prevSpectrum[j]; if (diff > 0) flux += diff\<close>,
  run only when a previous spectrum exists.\<close>

definition flux_of :: "real list \<Rightarrow> real list option \<Rightarrow> real" where
  "flux_of spectrum prev =
     (case prev of
        None \<Rightarrow> 0
      | Some p \<Rightarrow>
          foldl (\<lambda>flux j. let diff = spectrum ! j - p ! j in if diff > 0 then flux + diff else flux)
            0 [0..<length spectrum])"

section \<open>Rolling histories\<close>

text \<open>\<^verbatim>\<open>h.push(x); if (h.length > historySize) h.shift()\<close>\<close>

definition push_history :: "real list \<Rightarrow> real \<Rightarrow> real list" where
  "push_history h x = (let h' = h @ [x] in if length h' > historySize then tl h' else h')"

text \<open>\<^verbatim>\<open>h.reduce((a, b) => a + b, 0) / h.length\<close>\<close>

definition mean :: "real list \<Rightarrow> real" where
  "mean h = foldl (+) 0 h / real (length h)"

section \<open>Note placement\<close>

definition opposite :: "HandType \<Rightarrow> HandType" where
  "opposite h = (if h = left then right else left)"

text \<open>The branch on \<^verbatim>\<open>isStream\<close>: the result is (type, direction, lineIndex, lineLayer),
  with \<^verbatim>\<open>lineIndex = 1\<close> and \<^verbatim>\<open>lineLayer = 0\<close> as the values before the branch.\<close>

definition place :: "bool \<Rightarrow> real \<Rightarrow> HandType \<Rightarrow> HandType \<times> CutDirection \<times> nat \<times> nat" where
  "place isStream intensity lastH =
     (if isStream then
        (let type = (if lastH = left then right else left)
         in (type, DOWN, (if type = left then 1 else 2), 0))
      else
        (let type0 = (if intensity > 1.4 then right else left);
             type = (if type0 = lastH then (if type0 = left then right else left) else type0)
         in if intensity > 2.0 then (type, DOWN, (if type = left then 1 else 2), 0)
            else if intensity > 1.3 then (type, UP, (if type = left then 1 else 2), 0)
            else (type, ANY, (if type = left then 0 else 3), 1)))"

text \<open>The decimal numeral of the template string \<^verbatim>\<open>`note-${id++}`\<close>.\<close>

fun decimal :: "nat \<Rightarrow> string" where
  "decimal n =
     (if n < 10 then [''0123456789'' ! n]
      else decimal (n div 10) @ [''0123456789'' ! (n mod 10)])"

declare decimal.simps [simp del]

section \<open>The analysis loop\<close>

text \<open>One iteration of the \<^verbatim>\<open>for\<close> loop, at window start \<open>i\<close>. Each \<^verbatim>\<open>continue\<close> leaves
  with the histories and the previous spectrum already updated.\<close>

definition frame_step :: "real list \<Rightarrow> real \<Rightarrow> nat \<Rightarrow> analysis \<Rightarrow> analysis" where
  "frame_step data sr i st =
     (let frame = slice data i (i + windowSize);
          rms = rms_of frame;
          spectrum = spectrum_of frame;
          flux = flux_of spectrum (prevSpectrum st);
          st1 = st\<lparr>prevSpectrum := Some spectrum,
                   energyHistory := push_history (energyHistory st) rms,
                   fluxHistory := push_history (fluxHistory st) flux\<rparr>;
          avgEnergy = mean (energyHistory st1);
          avgFlux = mean (fluxHistory st1);
          t = real i / sr
      in if rms < 0.06 then st1
         else if flux < rms * 0.6 then st1
         else
           let isBeat = (rms > avgEnergy * 1.15 \<and> flux > avgFlux * 2.2
                          \<and> t - lastNoteTime st1 > MIN_NOTE_GAP)
           in if \<not> isBeat then st1
              else
                let intensity = rms / avgEnergy;
                    isStream = (t - lastNoteTime st1 < 0.22);
                    (type, direction, lIndex, lLayer) = place isStream intensity (lastHand st1)
                in st1\<lparr>notes := notes st1 @
                          [\<lparr>note_id = ''note-'' @ decimal (next_id st1), time = t,
                            lineIndex = lIndex, lineLayer = lLayer, hand = type,
                            cutDirection = direction, hit = None, missed = None\<rparr>],
                        next_id := next_id st1 + 1,
                        lastNoteTime := t,
                        lastHand := type\<rparr>)"

text \<open>\<^verbatim>\<open>for (let i = ...; i < data.length - windowSize; i += hopSize)\<close>. The bound is a
  JavaScript number and may be negative, so it is computed in the integers.\<close>

function analysis_loop :: "real list \<Rightarrow> real \<Rightarrow> nat \<Rightarrow> analysis \<Rightarrow> analysis" where
  "analysis_loop data sr i st =
     (if int i < int (length data) - int windowSize
      then analysis_loop data sr (i + hopSize) (frame_step data sr i st)
      else st)"
  by pat_completeness auto
termination
  by (relation "measure (\<lambda>(data, sr, i, st). length data - i)") (auto simp: hopSize_def)

declare analysis_loop.simps [simp del]

text \<open>The body of the \<^verbatim>\<open>try\<close> block once the audio is decoded.\<close>

definition generateChart :: "AudioBuffer \<Rightarrow> NoteData list" where
  "generateChart audio =
     filter (\<lambda>n. time n > 1.8) (notes (analysis_loop (channel0 audio) (sampleRate audio) 0 initial))"

section \<open>Fetching and decoding\<close>

text \<open>
  The browser calls of the \<^verbatim>\<open>try\<close> block, each of which may throw or reject:
  \<^verbatim>\<open>fetch\<close>, \<^verbatim>\<open>res.arrayBuffer()\<close>, \<^verbatim>\<open>new AudioContext()\<close> and \<^verbatim>\<open>ctx.decodeAudioData\<close>.
  An exception is \<open>Inl\<close> (\<open>Some\<close> for the constructor, which returns nothing the analysis
  reads).
\<close>

record ('e, 'r, 'b) browser =
  fetch :: "string \<Rightarrow> 'e + 'r"
  arrayBuffer :: "'r \<Rightarrow> 'e + 'b"
  newAudioContext :: "'e option"
  decodeAudioData :: "'b \<Rightarrow> 'e + AudioBuffer"

text \<open>The four awaited calls in the order of the source; the first exception ends the
  \<^verbatim>\<open>try\<close> block.\<close>

definition load_audio :: "('e, 'r, 'b) browser \<Rightarrow> string \<Rightarrow> 'e + AudioBuffer" where
  "load_audio env audioUrl =
     (case fetch env audioUrl of
        Inl e \<Rightarrow> Inl e
      | Inr res \<Rightarrow>
          (case arrayBuffer env res of
             Inl e \<Rightarrow> Inl e
           | Inr buffer \<Rightarrow>
               (case newAudioContext env of
                  Some e \<Rightarrow> Inl e
                | None \<Rightarrow> decodeAudioData env buffer)))"

text \<open>The whole function: the value the promise resolves to, and what \<^verbatim>\<open>console.error\<close>
  was called with in the \<^verbatim>\<open>catch\<close> block.\<close>

definition analyzeAudioAndGenerateChart ::
    "('e, 'r, 'b) browser \<Rightarrow> string \<Rightarrow> NoteData list \<times> 'e list" where
  "analyzeAudioAndGenerateChart env audioUrl =
     (case load_audio env audioUrl of
        Inl e \<Rightarrow> ([], [e])
      | Inr audio \<Rightarrow> (generateChart audio, []))"

section \<open>The pass, frame by frame\<close>

text \<open>The loop state at the start of iteration \<open>k\<close> (window start \<open>k * hopSize\<close>), and the
  number of iterations the loop runs.\<close>

primrec state_at :: "real list \<Rightarrow> real \<Rightarrow> nat \<Rightarrow> analysis" where
  "state_at data sr 0 = initial"
| "state_at data sr (Suc k) = frame_step data sr (k * hopSize) (state_at data sr k)"

definition frame_count :: "real list \<Rightarrow> nat" where
  "frame_count data = (length data - windowSize + (hopSize - 1)) div hopSize"

section \<open>The placement table of the specification\<close>

text \<open>The table as the specification words it, with \<open>opposite\<close> for the other hand.\<close>

definition table_spec :: "bool \<Rightarrow> real \<Rightarrow> HandType \<Rightarrow> HandType \<times> CutDirection \<times> nat \<times> nat" where
  "table_spec isStream intensity lastH =
     (if isStream then
        (opposite lastH, DOWN, (if opposite lastH = left then 1 else 2), 0)
      else
        (let initial_hand = (if intensity > 1.4 then right else left);
             h = (if initial_hand = lastH then opposite initial_hand else initial_hand)
         in if intensity > 2.0 then (h, DOWN, (if h = left then 1 else 2), 0)
            else if 1.3 < intensity \<and> intensity \<le> 2.0 then (h, UP, (if h = left then 1 else 2), 0)
            else (h, ANY, (if h = left then 0 else 3), 1)))"

section \<open>Invariants of the loop state\<close>

text \<open>What holds of the emitted notes and of the two variables that remember the last
  note, at every point of the pass.\<close>

definition chart_inv :: "analysis \<Rightarrow> bool" where
  "chart_inv st \<longleftrightarrow>
     successively (\<lambda>a b. time b - time a > MIN_NOTE_GAP \<and> hand a \<noteq> hand b) (notes st)
     \<and> (\<forall>n \<in> set (notes st). hit n = None \<and> missed n = None \<and> time n > MIN_NOTE_GAP)
     \<and> 0 \<le> lastNoteTime st
     \<and> (if notes st = [] then lastNoteTime st = 0 \<and> lastHand st = right
         else lastNoteTime st = time (last (notes st)) \<and> lastHand st = hand (last (notes st)))"

definition history_inv :: "real list \<Rightarrow> bool" where
  "history_inv h \<longleftrightarrow> length h \<le> historySize \<and> (\<forall>x \<in> set h. 0 \<le> x)"

section \<open>A sample input\<close>

text \<open>
  19000 samples at 8000 Hz: silence with three bursts of 32 full-scale samples, at
  0.256 s, 1.856 s and 2.112 s (samples 2048, 14848 and 16896, the starts of windows 4,
  29 and 33).
\<close>

definition demo_samples :: "real list" where
  "demo_samples =
     replicate 2048 0 @ replicate 32 1 @ replicate 12768 0 @ replicate 32 1 @
     replicate 2016 0 @ replicate 32 1 @ replicate 2072 0"

definition demo_audio :: AudioBuffer where
  "demo_audio = \<lparr>channel0 = demo_samples, sampleRate = 8000\<rparr>"

text \<open>A browser in which every call succeeds and decoding gives the sample input, one
  in which the request fails, and one in which the data does not decode.\<close>

definition demo_browser :: "(string, unit, unit) browser" where
  "demo_browser = \<lparr>fetch = (\<lambda>u. Inr ()), arrayBuffer = (\<lambda>r. Inr ()), newAudioContext = None,
     decodeAudioData = (\<lambda>b. Inr demo_audio)\<rparr>"

definition demo_url :: string where
  "demo_url = ''/music/song.mp3''"

definition demo_run :: "NoteData list" where
  "demo_run = fst (analyzeAudioAndGenerateChart demo_browser demo_url)"

definition offline_browser :: "(string, unit, unit) browser" where
  "offline_browser = \<lparr>fetch = (\<lambda>u. Inl ''TypeError: Failed to fetch''),
     arrayBuffer = (\<lambda>r. Inr ()), newAudioContext = None,
     decodeAudioData = (\<lambda>b. Inr demo_audio)\<rparr>"

definition corrupt_browser :: "(string, unit, unit) browser" where
  "corrupt_browser = \<lparr>fetch = (\<lambda>u. Inr ()), arrayBuffer = (\<lambda>r. Inr ()), newAudioContext = None,
     decodeAudioData = (\<lambda>b. Inl ''EncodingError: Unable to decode audio data'')\<rparr>"

definition short_audio :: AudioBuffer where
  "short_audio = \<lparr>channel0 = replicate 2048 1, sampleRate = 44100\<rparr>"

definition short_browser :: "(string, unit, unit) browser" where
  "short_browser = \<lparr>fetch = (\<lambda>u. Inr ()), arrayBuffer = (\<lambda>r. Inr ()), newAudioContext = None,
     decodeAudioData = (\<lambda>b. Inr short_audio)\<rparr>"


section \<open>Placement\<close>

lemma place_flips: "place s x h = (ty, d, li, la) \<Longrightarrow> ty \<noteq> h"
  by (cases h) (auto simp add: place_def Let_def split: if_splits)

lemma place_table: "place s x h = table_spec s x h"
  by (cases h) (simp_all add: place_def table_spec_def opposite_def Let_def)

section \<open>Reading a sample\<close>

lemma sample_or_zero_eq: "sample_or_zero frame k = (if k < length frame then frame ! k else 0)"
  by (simp add: sample_or_zero_def element_def or_zero_def)



section \<open>One iteration\<close>

lemma frame_step_energyHistory:
  "energyHistory (frame_step data sr i st)
     = push_history (energyHistory st) (rms_of (slice data i (i + windowSize)))"
  by (simp add: frame_step_def Let_def split: prod.splits)



lemma frame_step_cases:
  "(notes (frame_step data sr i st) = notes st
      \<and> lastNoteTime (frame_step data sr i st) = lastNoteTime st
      \<and> lastHand (frame_step data sr i st) = lastHand st)
   \<or> (\<exists>n. notes (frame_step data sr i st) = notes st @ [n]
          \<and> time n = real i / sr
          \<and> time n - lastNoteTime st > MIN_NOTE_GAP
          \<and> hand n \<noteq> lastHand st
          \<and> hit n = None \<and> missed n = None
          \<and> lastNoteTime (frame_step data sr i st) = time n
          \<and> lastHand (frame_step data sr i st) = hand n)"
  by (auto simp add: frame_step_def Let_def split: prod.splits dest: place_flips)

lemma frame_step_accepted:
  assumes "notes (frame_step data sr i st) \<noteq> notes st"
  shows "\<not> rms_of (slice data i (i + windowSize)) < 0.06"
    and "notes (frame_step data sr i st) \<noteq> []"
    and "time (last (notes (frame_step data sr i st))) = real i / sr"
    and "(hand (last (notes (frame_step data sr i st))),
          cutDirection (last (notes (frame_step data sr i st))),
          lineIndex (last (notes (frame_step data sr i st))),
          lineLayer (last (notes (frame_step data sr i st))))
         = place (real i / sr - lastNoteTime st < 0.22)
             (rms_of (slice data i (i + windowSize))
                / mean (push_history (energyHistory st) (rms_of (slice data i (i + windowSize)))))
             (lastHand st)"
  using assms
  by (auto simp add: frame_step_def Let_def split: prod.splits if_splits)

section \<open>The loop as a sequence of iterations\<close>

text \<open>The loop runs its body for the windows \<open>0, \<dots>, frame_count data - 1\<close> and ends in
  the state \<open>state_at data sr (frame_count data)\<close>; statements about \<open>state_at\<close> are
  statements about the states the loop goes through.\<close>

lemma loop_condition:
  "int (k * hopSize) < int (length data) - int windowSize \<longleftrightarrow> k < frame_count data"
  unfolding frame_count_def hopSize_def windowSize_def by simp linarith

lemma loop_unroll:
  "k \<le> frame_count data \<Longrightarrow>
     analysis_loop data sr (k * hopSize) (state_at data sr k) = state_at data sr (frame_count data)"
proof (induction "frame_count data - k" arbitrary: k)
  case 0
  then have k: "k = frame_count data" by simp
  then have "\<not> int (k * hopSize) < int (length data) - int windowSize"
    by (simp only: loop_condition)
  moreover note k
  ultimately show ?case
    by (subst analysis_loop.simps) (simp only: if_False)
next
  case (Suc d)
  then have "k < frame_count data" by simp
  then have c: "int (k * hopSize) < int (length data) - int windowSize"
    by (simp only: loop_condition)
  from Suc.hyps(2) Suc.prems have "d = frame_count data - Suc k" "Suc k \<le> frame_count data"
    by simp_all
  then have "analysis_loop data sr (Suc k * hopSize) (state_at data sr (Suc k))
      = state_at data sr (frame_count data)"
    by (rule Suc.hyps(1))
  moreover have "Suc k * hopSize = k * hopSize + hopSize" by simp
  ultimately show ?case
    by (subst analysis_loop.simps) (simp only: c if_True state_at.simps)
qed

lemma loop_is_state_at:
  "analysis_loop data sr 0 initial = state_at data sr (frame_count data)"
  using loop_unroll [of 0 data sr] by simp

lemma chart_of_pass:
  "generateChart audio =
     filter (\<lambda>n. time n > 1.8)
       (notes (state_at (channel0 audio) (sampleRate audio) (frame_count (channel0 audio))))"
  by (simp add: generateChart_def loop_is_state_at)

section \<open>Preservation of the invariant\<close>

lemma successively_snoc:
  "successively P (xs @ [x]) \<longleftrightarrow> successively P xs \<and> (xs \<noteq> [] \<longrightarrow> P (last xs) x)"
  by (cases "xs = []") (simp_all add: successively_append_iff)

lemma chart_inv_initial: "chart_inv initial"
  by (simp add: chart_inv_def initial_def)

lemma chart_inv_step:
  assumes inv: "chart_inv st"
  shows "chart_inv (frame_step data sr i st)"
proof -
  let ?st' = "frame_step data sr i st"
  let ?P = "\<lambda>a b. time b - time a > MIN_NOTE_GAP \<and> hand a \<noteq> hand b"
  from frame_step_cases [of data sr i st] show ?thesis
  proof (elim disjE exE conjE)
    assume "notes ?st' = notes st" "lastNoteTime ?st' = lastNoteTime st"
      "lastHand ?st' = lastHand st"
    with inv show ?thesis by (simp add: chart_inv_def)
  next
    fix n
    assume app: "notes ?st' = notes st @ [n]"
      and gap: "time n - lastNoteTime st > MIN_NOTE_GAP"
      and flip: "hand n \<noteq> lastHand st"
      and flags: "hit n = None" "missed n = None"
      and last: "lastNoteTime ?st' = time n" "lastHand ?st' = hand n"
    from inv have nonneg: "0 \<le> lastNoteTime st" by (simp add: chart_inv_def)
    have pos: "0 < MIN_NOTE_GAP" by (simp add: MIN_NOTE_GAP_def)
    from gap nonneg pos have late: "time n > MIN_NOTE_GAP" "0 \<le> time n" by linarith+
    from inv gap flip have "notes st \<noteq> [] \<longrightarrow> ?P (last (notes st)) n"
      by (auto simp add: chart_inv_def)
    with inv have "successively ?P (notes st @ [n])"
      by (simp add: successively_snoc chart_inv_def)
    moreover from inv flags late
    have "\<forall>m \<in> set (notes st @ [n]). hit m = None \<and> missed m = None \<and> time m > MIN_NOTE_GAP"
      by (auto simp add: chart_inv_def)
    ultimately show ?thesis
      using late last app unfolding chart_inv_def by simp
  qed
qed

lemma chart_inv_state_at: "chart_inv (state_at data sr k)"
  by (induction k) (simp_all add: chart_inv_initial chart_inv_step)

section \<open>The lead-in filter on an increasing list\<close>

lemma successively_suffix: "successively P (xs @ ys) \<Longrightarrow> successively P ys"
  by (simp add: successively_append_iff)

lemma successively_dropWhile: "successively P xs \<Longrightarrow> successively P (dropWhile Q xs)"
  using successively_suffix [of P "takeWhile Q xs" "dropWhile Q xs"] by simp

lemma filter_late_is_dropWhile:
  "sorted_wrt (<) (map time xs) \<Longrightarrow>
     filter (\<lambda>n. c < time n) xs = dropWhile (\<lambda>n. time n \<le> c) (xs :: NoteData list)"
proof (induction xs)
  case Nil
  show ?case by simp
next
  case (Cons x xs)
  show ?case
  proof (cases "c < time x")
    case True
    with Cons.prems have "\<forall>n \<in> set xs. c < time n" by auto
    then have "filter (\<lambda>n. c < time n) xs = xs" by simp
    with True show ?thesis by simp
  next
    case False
    with Cons show ?thesis by simp
  qed
qed

lemma gaps_increasing:
  assumes "successively (\<lambda>a b. time b - time a > MIN_NOTE_GAP \<and> hand a \<noteq> hand b) xs"
  shows "sorted_wrt (<) (map time (xs :: NoteData list))"
proof -
  have "successively (\<lambda>a b. time a < time b) xs"
    by (rule successively_mono [OF assms]) (simp add: MIN_NOTE_GAP_def)
  then have "successively (<) (map time xs)"
    by (simp add: successively_map)
  then show ?thesis
    by (simp add: successively_iff_sorted_wrt_strong)
qed

lemma successively_nth:
  "successively P xs \<Longrightarrow> Suc i < length xs \<Longrightarrow> P (xs ! i) (xs ! Suc i)"
  by (simp add: successively_conv_nth)

lemma chart_links:
  "successively (\<lambda>a b. time b - time a > MIN_NOTE_GAP \<and> hand a \<noteq> hand b) (generateChart audio)"
proof -
  let ?all = "notes (state_at (channel0 audio) (sampleRate audio) (frame_count (channel0 audio)))"
  have inv: "chart_inv (state_at (channel0 audio) (sampleRate audio) (frame_count (channel0 audio)))"
    by (rule chart_inv_state_at)
  then have links: "successively (\<lambda>a b. time b - time a > MIN_NOTE_GAP \<and> hand a \<noteq> hand b) ?all"
    by (simp add: chart_inv_def)
  then have "sorted_wrt (<) (map time ?all)"
    by (rule gaps_increasing)
  then have "generateChart audio = dropWhile (\<lambda>n. time n \<le> 1.8) ?all"
    by (simp only: chart_of_pass filter_late_is_dropWhile)
  with links show ?thesis
    by (simp only: successively_dropWhile)
qed

lemma chart_flags:
  "n \<in> set (generateChart audio) \<Longrightarrow> hit n = None \<and> missed n = None"
  using chart_inv_state_at [of "channel0 audio" "sampleRate audio" "frame_count (channel0 audio)"]
  by (simp add: chart_of_pass chart_inv_def)

lemma result_cases:
  "(\<exists>e. analyzeAudioAndGenerateChart env url = ([], [e]))
   \<or> (\<exists>audio. load_audio env url = Inr audio
         \<and> analyzeAudioAndGenerateChart env url = (generateChart audio, []))"
  by (cases "load_audio env url") (simp_all add: analyzeAudioAndGenerateChart_def)

lemma result_links:
  "successively (\<lambda>a b. time b - time a > MIN_NOTE_GAP \<and> hand a \<noteq> hand b)
     (fst (analyzeAudioAndGenerateChart env url))"
  using result_cases [of env url] chart_links by auto

section \<open>Evaluating the pass on the sample input\<close>

lemma sum_squares_foldl:
  "foldl (\<lambda>s v. s + v * v) a xs = a + sum_list (map (\<lambda>v. v * v) (xs :: real list))"
  by (induction xs arbitrary: a) simp_all

lemma rms_of_mean_square:
  "rms_of frame = sqrt (sum_list (map (\<lambda>v. v * v) frame) / real (length frame))"
  by (simp add: rms_of_def sum_squares_foldl)

lemma rms_of_nonneg: "0 \<le> rms_of frame"
  by (auto simp add: rms_of_mean_square intro!: divide_nonneg_nonneg sum_list_nonneg)

lemma sum_foldl: "foldl (+) a xs = a + sum_list (xs :: real list)"
  by (induction xs arbitrary: a) simp_all

lemma mean_sum_list: "mean h = sum_list h / real (length h)"
  by (simp add: mean_def sum_foldl)

lemma flux_foldl:
  "foldl (\<lambda>flux j. let diff = s ! j - p ! j in if diff > 0 then flux + diff else flux) a js
     = a + sum_list (map (\<lambda>j. max 0 (s ! j - p ! j)) js)"
  for s p :: "real list"
  by (induction js arbitrary: a) (simp_all add: Let_def max_def)

lemma flux_of_rectified:
  "flux_of s (Some p) = sum_list (map (\<lambda>j. max 0 (s ! j - p ! j)) [0..<length s])"
  by (simp only: flux_of_def option.case flux_foldl add_0)

lemma flux_of_first: "flux_of s None = 0"
  by (simp add: flux_of_def)

lemma flux_of_no_rise:
  assumes "\<And>j. j < length s \<Longrightarrow> s ! j \<le> p ! j"
  shows "flux_of s (Some p) = 0"
proof -
  have "map (\<lambda>j. max 0 (s ! j - p ! j)) [0..<length s] = map (\<lambda>j. 0) [0..<length s]"
  proof (rule map_cong [OF refl])
    fix j assume "j \<in> set [0..<length s]"
    then have "s ! j \<le> p ! j" using assms by simp
    then show "max 0 (s ! j - p ! j) = 0" by simp
  qed
  then show ?thesis
    by (simp add: flux_of_rectified map_replicate_const sum_list_replicate)
qed

text \<open>A frame without spectral rise leaves the loop at one of the two hard gates.\<close>

lemma frame_step_flat:
  assumes "flux_of (spectrum_of (slice data i (i + windowSize))) (prevSpectrum st) = 0"
  shows "frame_step data sr i st =
     st\<lparr>prevSpectrum := Some (spectrum_of (slice data i (i + windowSize))),
        energyHistory := push_history (energyHistory st) (rms_of (slice data i (i + windowSize))),
        fluxHistory := push_history (fluxHistory st) 0\<rparr>"
proof (cases "rms_of (slice data i (i + windowSize)) < 0.06")
  case True
  then show ?thesis by (simp add: frame_step_def Let_def assms)
next
  case False
  then have "0 < rms_of (slice data i (i + windowSize)) * 0.6" by simp
  with False show ?thesis by (simp add: frame_step_def Let_def assms)
qed

lemma push_history_short: "length h < historySize \<Longrightarrow> push_history h x = h @ [x]"
  by (simp add: push_history_def Let_def)

lemma rms_of_silence: "rms_of (replicate n 0) = 0"
  by (simp add: rms_of_mean_square sum_list_replicate)

lemma rms_of_burst:
  assumes ab: "a + b = 2016"
  shows "rms_of (replicate a 0 @ replicate 32 1 @ replicate b 0) = 1 / 8"
proof -
  let ?frame = "replicate a 0 @ replicate 32 1 @ replicate b (0::real)"
  have len: "length ?frame = 2048" using ab by simp
  have sq: "sum_list (map (\<lambda>v. v * v) ?frame) = 32"
    by (simp add: sum_list_replicate)
  have "sqrt (32 / real (2048::nat)) = 1 / 8"
    by (rule real_sqrt_unique) (simp_all add: power2_eq_square)
  then show ?thesis
    by (simp only: rms_of_mean_square len sq)
qed

lemma rms_of_burst_head: "rms_of (replicate 32 1 @ replicate 2016 0) = 1 / 8"
  using rms_of_burst [of 0 2016] by simp

lemma spectrum_of_quiet_head:
  assumes a: "157 \<le> a"
  shows "spectrum_of (replicate a 0 @ xs) = replicate 40 0"
proof -
  have "map (\<lambda>j. \<bar>sample_or_zero (replicate a 0 @ xs) (j * 4)\<bar>) [0..<40] = map (\<lambda>j. 0) [0..<40]"
  proof (rule map_cong [OF refl])
    fix j assume "j \<in> set [0..<40]"
    then have "j * 4 < a" using a by simp
    then show "\<bar>sample_or_zero (replicate a 0 @ xs) (j * 4)\<bar> = 0"
      by (simp add: sample_or_zero_eq nth_append)
  qed
  then show ?thesis
    by (simp add: spectrum_of_def map_replicate_const)
qed

lemma spectrum_of_silence: "spectrum_of (replicate 2048 0) = replicate 40 0"
  using spectrum_of_quiet_head [of 2048 "[]"] by simp

lemma spectrum_of_burst:
  "spectrum_of (replicate 32 1 @ replicate 2016 0) = replicate 8 1 @ replicate 32 0"
proof (rule nth_equalityI)
  show "length (spectrum_of (replicate 32 1 @ replicate 2016 0))
      = length (replicate 8 1 @ replicate 32 (0::real))"
    by (simp add: spectrum_of_def)
next
  fix j assume "j < length (spectrum_of (replicate 32 1 @ replicate 2016 0))"
  then have j: "j < 40" by (simp add: spectrum_of_def)
  then show "spectrum_of (replicate 32 1 @ replicate 2016 0) ! j
      = (replicate 8 1 @ replicate 32 0) ! j"
    by (auto simp add: spectrum_of_def sample_or_zero_eq nth_append)
qed

lemma flux_of_quiet: "flux_of (replicate 40 0) (Some (replicate 40 0)) = 0"
  by (rule flux_of_no_rise) simp

lemma flux_of_decay: "flux_of (replicate 40 0) (Some (replicate 8 1 @ replicate 32 0)) = 0"
  by (rule flux_of_no_rise) (simp add: nth_append)

lemma flux_of_onset: "flux_of (replicate 8 1 @ replicate 32 0) (Some (replicate 40 0)) = 8"
proof -
  have "[0..<40] = [0..<8] @ [8..<40]"
    using upt_add_eq_append [of 0 8 32] by simp
  moreover have "map (\<lambda>j. max 0 ((replicate 8 1 @ replicate 32 0) ! j - replicate 40 (0::real) ! j)) [0..<8]
      = map (\<lambda>j. 1) [0..<8]"
    by (rule map_cong [OF refl]) (simp add: nth_append)
  moreover have "map (\<lambda>j. max 0 ((replicate 8 1 @ replicate 32 0) ! j - replicate 40 (0::real) ! j)) [8..<40]
      = map (\<lambda>j. 0) [8..<40]"
  proof (rule map_cong [OF refl])
    fix j :: nat assume "j \<in> set [8..<40]"
    then have "8 \<le> j" "j < 40" by (simp_all only: set_upt atLeastLessThan_iff)
    then show "max 0 ((replicate 8 1 @ replicate 32 0) ! j - replicate 40 (0::real) ! j) = 0"
      by (simp add: nth_append)
  qed
  ultimately show ?thesis
    by (simp add: flux_of_rectified map_replicate_const sum_list_replicate)
qed

lemma state_at_step:
  "k = Suc j \<Longrightarrow> i = j * hopSize \<Longrightarrow>
     state_at data sr k = frame_step data sr i (state_at data sr j)"
  by simp

lemma demo_frame_count: "frame_count demo_samples = 34"
  by (simp add: frame_count_def demo_samples_def windowSize_def hopSize_def)

lemma demo_frame_0: "slice demo_samples 0 windowSize = replicate 2048 0"
  by (simp add: slice_def demo_samples_def windowSize_def)

lemma demo_frame_silent:
  assumes "2080 \<le> i" and "i + 2048 \<le> 14848"
  shows "slice demo_samples i (i + windowSize) = replicate 2048 0"
proof -
  have "drop i demo_samples = drop (i - 2080) (replicate 12768 0 @ replicate 32 1 @
     replicate 2016 0 @ replicate 32 1 @ replicate 2072 0)"
    using assms(1) by (simp add: demo_samples_def)
  also have "\<dots> = replicate (12768 - (i - 2080)) 0 @ replicate 32 1 @
     replicate 2016 0 @ replicate 32 1 @ replicate 2072 0"
    using assms by simp
  finally show ?thesis
    using assms by (simp add: slice_def windowSize_def min_def)
qed

lemma demo_frame_1: "slice demo_samples 512 (512 + windowSize)
    = replicate 1536 0 @ replicate 32 1 @ replicate 480 0"
  by (simp add: slice_def demo_samples_def windowSize_def)

lemma demo_frame_2: "slice demo_samples 1024 (1024 + windowSize)
    = replicate 1024 0 @ replicate 32 1 @ replicate 992 0"
  by (simp add: slice_def demo_samples_def windowSize_def)

lemma demo_frame_3: "slice demo_samples 1536 (1536 + windowSize)
    = replicate 512 0 @ replicate 32 1 @ replicate 1504 0"
  by (simp add: slice_def demo_samples_def windowSize_def)

lemma demo_frame_26: "slice demo_samples 13312 (13312 + windowSize)
    = replicate 1536 0 @ replicate 32 1 @ replicate 480 0"
  by (simp add: slice_def demo_samples_def windowSize_def)

lemma demo_frame_27: "slice demo_samples 13824 (13824 + windowSize)
    = replicate 1024 0 @ replicate 32 1 @ replicate 992 0"
  by (simp add: slice_def demo_samples_def windowSize_def)

lemma demo_frame_28: "slice demo_samples 14336 (14336 + windowSize)
    = replicate 512 0 @ replicate 32 1 @ replicate 1504 0"
  by (simp add: slice_def demo_samples_def windowSize_def)

lemma demo_frame_30: "slice demo_samples 15360 (15360 + windowSize)
    = replicate 1536 0 @ replicate 32 1 @ replicate 480 0"
  by (simp add: slice_def demo_samples_def windowSize_def)

lemma demo_frame_31: "slice demo_samples 15872 (15872 + windowSize)
    = replicate 1024 0 @ replicate 32 1 @ replicate 992 0"
  by (simp add: slice_def demo_samples_def windowSize_def)

lemma demo_frame_32: "slice demo_samples 16384 (16384 + windowSize)
    = replicate 512 0 @ replicate 32 1 @ replicate 1504 0"
  by (simp add: slice_def demo_samples_def windowSize_def)

lemma demo_frame_4: "slice demo_samples 2048 (2048 + windowSize)
    = replicate 32 1 @ replicate 2016 0"
  by (simp add: slice_def demo_samples_def windowSize_def)

lemma demo_frame_29: "slice demo_samples 14848 (14848 + windowSize)
    = replicate 32 1 @ replicate 2016 0"
  by (simp add: slice_def demo_samples_def windowSize_def)

lemma demo_frame_33: "slice demo_samples 16896 (16896 + windowSize)
    = replicate 32 1 @ replicate 2016 0"
  by (simp add: slice_def demo_samples_def windowSize_def)

lemma demo_state_1:
  "state_at demo_samples 8000 1 =
     \<lparr>energyHistory = [0],
      fluxHistory = [0],
      lastNoteTime = 0, lastHand = right, next_id = 0,
      notes = [],
      prevSpectrum = Some (replicate 40 0)\<rparr>"
proof -
  have "state_at demo_samples 8000 1 = frame_step demo_samples 8000 0 initial"
    by simp
  then show ?thesis
    by (simp add: frame_step_flat initial_def demo_frame_0 spectrum_of_silence flux_of_first
        rms_of_silence push_history_short historySize_def)
qed

lemma demo_state_2:
  "state_at demo_samples 8000 2 =
     \<lparr>energyHistory = [0, 1 / 8],
      fluxHistory = [0, 0],
      lastNoteTime = 0, lastHand = right, next_id = 0,
      notes = [],
      prevSpectrum = Some (replicate 40 0)\<rparr>"
proof -
  have step: "state_at demo_samples 8000 2
      = frame_step demo_samples 8000 512 (state_at demo_samples 8000 1)"
    by (rule state_at_step) (simp_all add: hopSize_def)
  show ?thesis
    by (simp only: step demo_state_1)
      (simp add: frame_step_flat demo_frame_1 rms_of_burst
        spectrum_of_quiet_head flux_of_quiet flux_of_decay push_history_short historySize_def)
qed

lemma demo_state_3:
  "state_at demo_samples 8000 3 =
     \<lparr>energyHistory = [0, 1 / 8, 1 / 8],
      fluxHistory = [0, 0, 0],
      lastNoteTime = 0, lastHand = right, next_id = 0,
      notes = [],
      prevSpectrum = Some (replicate 40 0)\<rparr>"
proof -
  have step: "state_at demo_samples 8000 3
      = frame_step demo_samples 8000 1024 (state_at demo_samples 8000 2)"
    by (rule state_at_step) (simp_all add: hopSize_def)
  show ?thesis
    by (simp only: step demo_state_2)
      (simp add: frame_step_flat demo_frame_2 rms_of_burst
        spectrum_of_quiet_head flux_of_quiet flux_of_decay push_history_short historySize_def)
qed

lemma demo_state_4:
  "state_at demo_samples 8000 4 =
     \<lparr>energyHistory = [0, 1 / 8, 1 / 8, 1 / 8],
      fluxHistory = [0, 0, 0, 0],
      lastNoteTime = 0, lastHand = right, next_id = 0,
      notes = [],
      prevSpectrum = Some (replicate 40 0)\<rparr>"
proof -
  have step: "state_at demo_samples 8000 4
      = frame_step demo_samples 8000 1536 (state_at demo_samples 8000 3)"
    by (rule state_at_step) (simp_all add: hopSize_def)
  show ?thesis
    by (simp only: step demo_state_3)
      (simp add: frame_step_flat demo_frame_3 rms_of_burst
        spectrum_of_quiet_head flux_of_quiet flux_of_decay push_history_short historySize_def)
qed

lemma demo_state_5:
  "state_at demo_samples 8000 5 =
     \<lparr>energyHistory = [0, 1 / 8, 1 / 8, 1 / 8, 1 / 8],
      fluxHistory = [0, 0, 0, 0, 8],
      lastNoteTime = 0.256, lastHand = left, next_id = 1,
      notes = [\<lparr>note_id = ''note-0'', time = 0.256, lineIndex = 0, lineLayer = 1,
         hand = left, cutDirection = ANY, hit = None, missed = None\<rparr>],
      prevSpectrum = Some (replicate 8 1 @ replicate 32 0)\<rparr>"
proof -
  have step: "state_at demo_samples 8000 5
      = frame_step demo_samples 8000 2048 (state_at demo_samples 8000 4)"
    by (rule state_at_step) (simp_all add: hopSize_def)
  show ?thesis
    by (simp only: step demo_state_4)
      (simp add: frame_step_def Let_def demo_frame_4 rms_of_burst_head
        spectrum_of_burst flux_of_onset push_history_short historySize_def mean_sum_list
        sum_list_replicate MIN_NOTE_GAP_def place_def decimal.simps)
qed

text \<open>The twenty-one silent windows 5 to 25.\<close>

lemma demo_state_quiet:
  assumes "m \<le> 20"
  shows "state_at demo_samples 8000 (6 + m) =
     \<lparr>energyHistory = [0, 1 / 8, 1 / 8, 1 / 8, 1 / 8] @ replicate (Suc m) 0,
      fluxHistory = [0, 0, 0, 0, 8] @ replicate (Suc m) 0,
      lastNoteTime = 0.256, lastHand = left, next_id = 1,
      notes = [\<lparr>note_id = ''note-0'', time = 0.256, lineIndex = 0, lineLayer = 1,
         hand = left, cutDirection = ANY, hit = None, missed = None\<rparr>],
      prevSpectrum = Some (replicate 40 0)\<rparr>"
  using assms
proof (induction m)
  case 0
  have "state_at demo_samples 8000 6
      = frame_step demo_samples 8000 2560 (state_at demo_samples 8000 5)"
    by (rule state_at_step) (simp_all add: hopSize_def)
  moreover have "slice demo_samples 2560 (2560 + windowSize) = replicate 2048 0"
    by (rule demo_frame_silent) simp_all
  ultimately show ?case
    by (simp add: demo_state_5 frame_step_flat spectrum_of_silence flux_of_decay
        rms_of_silence push_history_short historySize_def)
next
  case (Suc m)
  then have m: "m < 20" by simp
  have "state_at demo_samples 8000 (6 + Suc m)
      = frame_step demo_samples 8000 ((6 + m) * 512) (state_at demo_samples 8000 (6 + m))"
    by (rule state_at_step) (simp_all add: hopSize_def)
  moreover have "slice demo_samples ((6 + m) * 512) ((6 + m) * 512 + windowSize) = replicate 2048 0"
    using m by (intro demo_frame_silent) simp_all
  ultimately show ?case
    using Suc.IH m
    by (simp add: frame_step_flat spectrum_of_silence flux_of_quiet
        rms_of_silence push_history_short historySize_def replicate_append_same)
qed

lemma demo_state_26:
  "state_at demo_samples 8000 26 =
     \<lparr>energyHistory = [0, 1 / 8, 1 / 8, 1 / 8, 1 / 8] @ replicate 21 0,
      fluxHistory = [0, 0, 0, 0, 8] @ replicate 21 0,
      lastNoteTime = 0.256, lastHand = left, next_id = 1,
      notes = [\<lparr>note_id = ''note-0'', time = 0.256, lineIndex = 0, lineLayer = 1,
         hand = left, cutDirection = ANY, hit = None, missed = None\<rparr>],
      prevSpectrum = Some (replicate 40 0)\<rparr>"
  using demo_state_quiet [of 20] by (simp add: eval_nat_numeral)

lemma demo_state_27:
  "state_at demo_samples 8000 27 =
     \<lparr>energyHistory = [0, 1 / 8, 1 / 8, 1 / 8, 1 / 8] @ replicate 21 0 @ [1 / 8],
      fluxHistory = [0, 0, 0, 0, 8] @ replicate 21 0 @ [0],
      lastNoteTime = 0.256, lastHand = left, next_id = 1,
      notes = [\<lparr>note_id = ''note-0'', time = 0.256, lineIndex = 0, lineLayer = 1,
         hand = left, cutDirection = ANY, hit = None, missed = None\<rparr>],
      prevSpectrum = Some (replicate 40 0)\<rparr>"
proof -
  have step: "state_at demo_samples 8000 27
      = frame_step demo_samples 8000 13312 (state_at demo_samples 8000 26)"
    by (rule state_at_step) (simp_all add: hopSize_def)
  show ?thesis
    by (simp only: step demo_state_26)
      (simp add: frame_step_flat demo_frame_26 rms_of_burst
        spectrum_of_quiet_head flux_of_quiet flux_of_decay push_history_short historySize_def)
qed

lemma demo_state_28:
  "state_at demo_samples 8000 28 =
     \<lparr>energyHistory = [0, 1 / 8, 1 / 8, 1 / 8, 1 / 8] @ replicate 21 0 @ [1 / 8, 1 / 8],
      fluxHistory = [0, 0, 0, 0, 8] @ replicate 21 0 @ [0, 0],
      lastNoteTime = 0.256, lastHand = left, next_id = 1,
      notes = [\<lparr>note_id = ''note-0'', time = 0.256, lineIndex = 0, lineLayer = 1,
         hand = left, cutDirection = ANY, hit = None, missed = None\<rparr>],
      prevSpectrum = Some (replicate 40 0)\<rparr>"
proof -
  have step: "state_at demo_samples 8000 28
      = frame_step demo_samples 8000 13824 (state_at demo_samples 8000 27)"
    by (rule state_at_step) (simp_all add: hopSize_def)
  show ?thesis
    by (simp only: step demo_state_27)
      (simp add: frame_step_flat demo_frame_27 rms_of_burst
        spectrum_of_quiet_head flux_of_quiet flux_of_decay push_history_short historySize_def)
qed

lemma demo_state_29:
  "state_at demo_samples 8000 29 =
     \<lparr>energyHistory = [0, 1 / 8, 1 / 8, 1 / 8, 1 / 8] @ replicate 21 0 @ [1 / 8, 1 / 8, 1 / 8],
      fluxHistory = [0, 0, 0, 0, 8] @ replicate 21 0 @ [0, 0, 0],
      lastNoteTime = 0.256, lastHand = left, next_id = 1,
      notes = [\<lparr>note_id = ''note-0'', time = 0.256, lineIndex = 0, lineLayer = 1,
         hand = left, cutDirection = ANY, hit = None, missed = None\<rparr>],
      prevSpectrum = Some (replicate 40 0)\<rparr>"
proof -
  have step: "state_at demo_samples 8000 29
      = frame_step demo_samples 8000 14336 (state_at demo_samples 8000 28)"
    by (rule state_at_step) (simp_all add: hopSize_def)
  show ?thesis
    by (simp only: step demo_state_28)
      (simp add: frame_step_flat demo_frame_28 rms_of_burst
        spectrum_of_quiet_head flux_of_quiet flux_of_decay push_history_short historySize_def)
qed

lemma demo_state_30:
  "state_at demo_samples 8000 30 =
     \<lparr>energyHistory = [0, 1 / 8, 1 / 8, 1 / 8, 1 / 8] @ replicate 21 0 @ [1 / 8, 1 / 8, 1 / 8, 1 / 8],
      fluxHistory = [0, 0, 0, 0, 8] @ replicate 21 0 @ [0, 0, 0, 8],
      lastNoteTime = 1.856, lastHand = right, next_id = 2,
      notes = [\<lparr>note_id = ''note-0'', time = 0.256, lineIndex = 0, lineLayer = 1,
         hand = left, cutDirection = ANY, hit = None, missed = None\<rparr>,
        \<lparr>note_id = ''note-1'', time = 1.856, lineIndex = 2, lineLayer = 0,
         hand = right, cutDirection = DOWN, hit = None, missed = None\<rparr>],
      prevSpectrum = Some (replicate 8 1 @ replicate 32 0)\<rparr>"
proof -
  have step: "state_at demo_samples 8000 30
      = frame_step demo_samples 8000 14848 (state_at demo_samples 8000 29)"
    by (rule state_at_step) (simp_all add: hopSize_def)
  show ?thesis
    by (simp only: step demo_state_29)
      (simp add: frame_step_def Let_def demo_frame_29 rms_of_burst_head
        spectrum_of_burst flux_of_onset push_history_short historySize_def mean_sum_list
        sum_list_replicate MIN_NOTE_GAP_def place_def decimal.simps)
qed

lemma demo_state_31:
  "state_at demo_samples 8000 31 =
     \<lparr>energyHistory = [0, 1 / 8, 1 / 8, 1 / 8, 1 / 8] @ replicate 21 0 @ [1 / 8, 1 / 8, 1 / 8, 1 / 8, 1 / 8],
      fluxHistory = [0, 0, 0, 0, 8] @ replicate 21 0 @ [0, 0, 0, 8, 0],
      lastNoteTime = 1.856, lastHand = right, next_id = 2,
      notes = [\<lparr>note_id = ''note-0'', time = 0.256, lineIndex = 0, lineLayer = 1,
         hand = left, cutDirection = ANY, hit = None, missed = None\<rparr>,
        \<lparr>note_id = ''note-1'', time = 1.856, lineIndex = 2, lineLayer = 0,
         hand = right, cutDirection = DOWN, hit = None, missed = None\<rparr>],
      prevSpectrum = Some (replicate 40 0)\<rparr>"
proof -
  have step: "state_at demo_samples 8000 31
      = frame_step demo_samples 8000 15360 (state_at demo_samples 8000 30)"
    by (rule state_at_step) (simp_all add: hopSize_def)
  show ?thesis
    by (simp only: step demo_state_30)
      (simp add: frame_step_flat demo_frame_30 rms_of_burst
        spectrum_of_quiet_head flux_of_quiet flux_of_decay push_history_short historySize_def)
qed

lemma demo_state_32:
  "state_at demo_samples 8000 32 =
     \<lparr>energyHistory = [0, 1 / 8, 1 / 8, 1 / 8, 1 / 8] @ replicate 21 0 @ [1 / 8, 1 / 8, 1 / 8, 1 / 8, 1 / 8, 1 / 8],
      fluxHistory = [0, 0, 0, 0, 8] @ replicate 21 0 @ [0, 0, 0, 8, 0, 0],
      lastNoteTime = 1.856, lastHand = right, next_id = 2,
      notes = [\<lparr>note_id = ''note-0'', time = 0.256, lineIndex = 0, lineLayer = 1,
         hand = left, cutDirection = ANY, hit = None, missed = None\<rparr>,
        \<lparr>note_id = ''note-1'', time = 1.856, lineIndex = 2, lineLayer = 0,
         hand = right, cutDirection = DOWN, hit = None, missed = None\<rparr>],
      prevSpectrum = Some (replicate 40 0)\<rparr>"
proof -
  have step: "state_at demo_samples 8000 32
      = frame_step demo_samples 8000 15872 (state_at demo_samples 8000 31)"
    by (rule state_at_step) (simp_all add: hopSize_def)
  show ?thesis
    by (simp only: step demo_state_31)
      (simp add: frame_step_flat demo_frame_31 rms_of_burst
        spectrum_of_quiet_head flux_of_quiet flux_of_decay push_history_short historySize_def)
qed

lemma demo_state_33:
  "state_at demo_samples 8000 33 =
     \<lparr>energyHistory = [0, 1 / 8, 1 / 8, 1 / 8, 1 / 8] @ replicate 21 0 @ [1 / 8, 1 / 8, 1 / 8, 1 / 8, 1 / 8, 1 / 8, 1 / 8],
      fluxHistory = [0, 0, 0, 0, 8] @ replicate 21 0 @ [0, 0, 0, 8, 0, 0, 0],
      lastNoteTime = 1.856, lastHand = right, next_id = 2,
      notes = [\<lparr>note_id = ''note-0'', time = 0.256, lineIndex = 0, lineLayer = 1,
         hand = left, cutDirection = ANY, hit = None, missed = None\<rparr>,
        \<lparr>note_id = ''note-1'', time = 1.856, lineIndex = 2, lineLayer = 0,
         hand = right, cutDirection = DOWN, hit = None, missed = None\<rparr>],
      prevSpectrum = Some (replicate 40 0)\<rparr>"
proof -
  have step: "state_at demo_samples 8000 33
      = frame_step demo_samples 8000 16384 (state_at demo_samples 8000 32)"
    by (rule state_at_step) (simp_all add: hopSize_def)
  show ?thesis
    by (simp only: step demo_state_32)
      (simp add: frame_step_flat demo_frame_32 rms_of_burst
        spectrum_of_quiet_head flux_of_quiet flux_of_decay push_history_short historySize_def)
qed

lemma demo_state_34:
  "state_at demo_samples 8000 34 =
     \<lparr>energyHistory = [0, 1 / 8, 1 / 8, 1 / 8, 1 / 8] @ replicate 21 0 @ [1 / 8, 1 / 8, 1 / 8, 1 / 8, 1 / 8, 1 / 8, 1 / 8, 1 / 8],
      fluxHistory = [0, 0, 0, 0, 8] @ replicate 21 0 @ [0, 0, 0, 8, 0, 0, 0, 8],
      lastNoteTime = 2.112, lastHand = left, next_id = 3,
      notes = [\<lparr>note_id = ''note-0'', time = 0.256, lineIndex = 0, lineLayer = 1,
         hand = left, cutDirection = ANY, hit = None, missed = None\<rparr>,
        \<lparr>note_id = ''note-1'', time = 1.856, lineIndex = 2, lineLayer = 0,
         hand = right, cutDirection = DOWN, hit = None, missed = None\<rparr>,
        \<lparr>note_id = ''note-2'', time = 2.112, lineIndex = 1, lineLayer = 0,
         hand = left, cutDirection = DOWN, hit = None, missed = None\<rparr>],
      prevSpectrum = Some (replicate 8 1 @ replicate 32 0)\<rparr>"
proof -
  have step: "state_at demo_samples 8000 34
      = frame_step demo_samples 8000 16896 (state_at demo_samples 8000 33)"
    by (rule state_at_step) (simp_all add: hopSize_def)
  show ?thesis
    by (simp only: step demo_state_33)
      (simp add: frame_step_def Let_def demo_frame_33 rms_of_burst_head
        spectrum_of_burst flux_of_onset push_history_short historySize_def mean_sum_list
        sum_list_replicate MIN_NOTE_GAP_def place_def decimal.simps)
qed

lemma demo_chart:
  "generateChart demo_audio =
     [\<lparr>note_id = ''note-1'', time = 1.856, lineIndex = 2, lineLayer = 0,
         hand = right, cutDirection = DOWN, hit = None, missed = None\<rparr>,
      \<lparr>note_id = ''note-2'', time = 2.112, lineIndex = 1, lineLayer = 0,
         hand = left, cutDirection = DOWN, hit = None, missed = None\<rparr>]"
  by (simp add: chart_of_pass demo_audio_def demo_frame_count demo_state_34)

lemma demo_run_value:
  "demo_run =
     [\<lparr>note_id = ''note-1'', time = 1.856, lineIndex = 2, lineLayer = 0,
         hand = right, cutDirection = DOWN, hit = None, missed = None\<rparr>,
       \<lparr>note_id = ''note-2'', time = 2.112, lineIndex = 1, lineLayer = 0,
         hand = left, cutDirection = DOWN, hit = None, missed = None\<rparr>]"
  by (simp add: demo_run_def analyzeAudioAndGenerateChart_def load_audio_def demo_browser_def
      demo_chart)

section \<open>Emitted notes are never rewritten\<close>

lemma frame_step_keeps_notes:
  "take (length (notes st)) (notes (frame_step data sr i st)) = notes st"
  using frame_step_cases [of data sr i st] by auto

lemma frame_step_notes_length: "length (notes st) \<le> length (notes (frame_step data sr i st))"
  using frame_step_cases [of data sr i st] by auto

lemma state_at_notes_length:
  "length (notes (state_at data sr k)) \<le> length (notes (state_at data sr (k + j)))"
proof (induction j)
  case 0
  show ?case by simp
next
  case (Suc j)
  have "length (notes (state_at data sr (k + j)))
      \<le> length (notes (state_at data sr (k + Suc j)))"
    by (simp add: frame_step_notes_length)
  with Suc show ?case by (rule order_trans)
qed

lemma state_at_keeps_notes:
  "take (length (notes (state_at data sr k))) (notes (state_at data sr (k + j)))
     = notes (state_at data sr k)"
proof (induction j)
  case 0
  show ?case by simp
next
  case (Suc j)
  let ?n = "length (notes (state_at data sr k))"
  let ?m = "length (notes (state_at data sr (k + j)))"
  have le: "?n \<le> ?m" by (rule state_at_notes_length)
  have "take ?m (notes (state_at data sr (k + Suc j))) = notes (state_at data sr (k + j))"
    by (simp add: frame_step_keeps_notes)
  then have "take ?n (take ?m (notes (state_at data sr (k + Suc j))))
      = take ?n (notes (state_at data sr (k + j)))"
    by simp
  with le Suc show ?case by (simp add: min_def)
qed

section \<open>Properties of the chart\<close>

text \<open>
  C1 (monotonicity). In the chart returned by \<^verbatim>\<open>analyzeAudioAndGenerateChart\<close>, the time
  of every note is at most the time of the note after it; the times are even strictly
  increasing. When loading fails the chart is empty and there is no such pair.
\<close>

theorem chart_times_increasing:
  assumes "chart = fst (analyzeAudioAndGenerateChart env url)"
    and "Suc i < length chart"
  shows "time (chart ! i) \<le> time (chart ! Suc i) \<and> time (chart ! i) < time (chart ! Suc i)"
proof -
  have "time (chart ! Suc i) - time (chart ! i) > MIN_NOTE_GAP"
    using successively_nth [OF result_links [of env url], of i] assms by simp
  then show ?thesis by (simp add: MIN_NOTE_GAP_def)
qed

theorem chart_times_increasing_witness:
  "Suc 0 < length demo_run
   \<and> time (demo_run ! 0) < time (demo_run ! Suc 0)"
proof -
  have len: "Suc 0 < length demo_run"
    by (simp add: demo_run_value)
  from chart_times_increasing [OF demo_run_def len] len show ?thesis by simp
qed

text \<open>
  C2 (lead-in guard). Every note of the returned chart has a time above 1.8 seconds, and
  when the audio was loaded the chart is the list of all notes pushed during the pass,
  filtered once by \<^verbatim>\<open>n.time > 1.8\<close>.
\<close>

theorem chart_after_lead_in:
  assumes "chart = fst (analyzeAudioAndGenerateChart env url)"
  shows "(\<forall>n \<in> set chart. time n > 1.8)
    \<and> (\<forall>audio. load_audio env url = Inr audio \<longrightarrow>
          chart = filter (\<lambda>n. time n > 1.8)
            (notes (analysis_loop (channel0 audio) (sampleRate audio) 0 initial)))"
proof (cases "load_audio env url")
  case (Inl e)
  with assms show ?thesis by (simp add: analyzeAudioAndGenerateChart_def)
next
  case (Inr audio)
  with assms show ?thesis by (simp add: analyzeAudioAndGenerateChart_def generateChart_def)
qed

theorem chart_after_lead_in_witness:
  "hd demo_run \<in> set demo_run
   \<and> time (hd demo_run) > 1.8
   \<and> load_audio demo_browser demo_url = Inr demo_audio
   \<and> demo_run
       = filter (\<lambda>n. time n > 1.8) (notes (analysis_loop demo_samples 8000 0 initial))
   \<and> length (notes (analysis_loop demo_samples 8000 0 initial)) = 3"
proof -
  have mem: "hd demo_run \<in> set demo_run"
    by (simp add: demo_run_value)
  have load: "load_audio demo_browser demo_url = Inr demo_audio"
    by (simp add: load_audio_def demo_browser_def)
  have all: "length (notes (analysis_loop demo_samples 8000 0 initial)) = 3"
    by (simp add: loop_is_state_at demo_frame_count demo_state_34)
  from chart_after_lead_in [OF demo_run_def] mem load all
  show ?thesis by (auto simp add: demo_audio_def)
qed

text \<open>
  C3 (minimum gap). Any two neighbouring notes of the returned chart, whether the later
  one was classified as a stream note or not, are more than \<^verbatim>\<open>MIN_NOTE_GAP\<close> = 0.12
  seconds apart, so in particular at least 0.12 seconds.
\<close>

theorem chart_minimum_gap:
  assumes "chart = fst (analyzeAudioAndGenerateChart env url)"
    and "Suc i < length chart"
  shows "time (chart ! Suc i) - time (chart ! i) \<ge> 0.12
    \<and> time (chart ! Suc i) - time (chart ! i) > MIN_NOTE_GAP"
proof -
  have "time (chart ! Suc i) - time (chart ! i) > MIN_NOTE_GAP"
    using successively_nth [OF result_links [of env url], of i] assms by simp
  then show ?thesis by (simp add: MIN_NOTE_GAP_def)
qed

theorem chart_minimum_gap_witness:
  "Suc 0 < length demo_run
   \<and> time (demo_run ! Suc 0) - time (demo_run ! 0) \<ge> 0.12"
proof -
  have len: "Suc 0 < length demo_run"
    by (simp add: demo_run_value)
  from chart_minimum_gap [OF demo_run_def len] len show ?thesis by simp
qed

text \<open>
  C9 (alternation). Any two neighbouring notes of the returned chart are for different
  hands. Every branch of the placement, isolated or stream, picks the hand that
  \<^verbatim>\<open>lastHand\<close> is not, and the lead-in filter removes a prefix of the pushed notes, so
  neighbours in the chart were pushed one after the other.
\<close>

theorem chart_hands_alternate:
  assumes "chart = fst (analyzeAudioAndGenerateChart env url)"
    and "Suc i < length chart"
  shows "hand (chart ! i) \<noteq> hand (chart ! Suc i)"
  using successively_nth [OF result_links [of env url], of i] assms by simp

theorem chart_hands_alternate_witness:
  "Suc 0 < length demo_run
   \<and> hand (demo_run ! 0) \<noteq> hand (demo_run ! Suc 0)"
proof -
  have len: "Suc 0 < length demo_run"
    by (simp add: demo_run_value)
  from chart_hands_alternate [OF demo_run_def len] len show ?thesis by simp
qed

text \<open>
  C4 (hit and missed flags), as the code has it. The object literal pushed by the
  generator has no \<^verbatim>\<open>hit\<close> and no \<^verbatim>\<open>missed\<close> property: they are absent (\<^verbatim>\<open>undefined\<close>)
  rather than \<^verbatim>\<open>false\<close>, in every note of the returned chart. A note that has been pushed
  is not written again: the notes present at the start of iteration \<open>k\<close> are still the
  first notes, unchanged, at the start of every later iteration.
\<close>

theorem chart_flags_absent:
  assumes "chart = fst (analyzeAudioAndGenerateChart env url)"
  shows "(\<forall>n \<in> set chart. hit n = None \<and> missed n = None)
    \<and> take (length (notes (state_at data sr k))) (notes (state_at data sr (k + j)))
        = notes (state_at data sr k)"
proof -
  have "\<forall>n \<in> set chart. hit n = None \<and> missed n = None"
    using result_cases [of env url] assms chart_flags by auto
  then show ?thesis by (simp add: state_at_keeps_notes)
qed

theorem chart_flags_absent_witness:
  "hd demo_run \<in> set demo_run
   \<and> hit (hd demo_run) = None
   \<and> missed (hd demo_run) = None
   \<and> length (notes (state_at demo_samples 8000 5)) = 1
   \<and> take 1 (notes (state_at demo_samples 8000 34)) = notes (state_at demo_samples 8000 5)"
proof -
  have mem: "hd demo_run \<in> set demo_run"
    by (simp add: demo_run_value)
  have one: "length (notes (state_at demo_samples 8000 5)) = 1"
    by (simp only: demo_state_5) simp
  from chart_flags_absent [OF demo_run_def, of demo_samples 8000 5 29] mem one
  show ?thesis by simp
qed

text \<open>The claim as the specification words it, \<^verbatim>\<open>hit = false\<close> and \<^verbatim>\<open>missed = false\<close> at
  creation, fails on the first note of the chart of the sample input.\<close>

theorem chart_flags_false_counterexample:
  "hd demo_run \<in> set demo_run
   \<and> \<not> (hit (hd demo_run) = Some False \<and> missed (hd demo_run) = Some False)"
  by (simp add: demo_run_value)

text \<open>
  C10 (short input). When the decoded audio has at most \<^verbatim>\<open>windowSize\<close> = 2048 samples
  in channel 0, the loop body never runs and the function returns the empty chart,
  without logging anything.
\<close>

theorem short_audio_empty_chart:
  assumes "load_audio env url = Inr audio"
    and "length (channel0 audio) \<le> windowSize"
  shows "analyzeAudioAndGenerateChart env url = ([], [])"
proof -
  from assms(2) have "\<not> int 0 < int (length (channel0 audio)) - int windowSize" by simp
  then have "analysis_loop (channel0 audio) (sampleRate audio) 0 initial = initial"
    by (subst analysis_loop.simps) (simp only: if_False)
  then show ?thesis
    by (simp add: analyzeAudioAndGenerateChart_def assms(1) generateChart_def initial_def)
qed

theorem short_audio_empty_chart_witness:
  "load_audio short_browser demo_url = Inr short_audio
   \<and> length (channel0 short_audio) = 2048
   \<and> analyzeAudioAndGenerateChart short_browser demo_url = ([], [])"
proof -
  have load: "load_audio short_browser demo_url = Inr short_audio"
    by (simp add: load_audio_def short_browser_def)
  have len: "length (channel0 short_audio) \<le> windowSize"
    by (simp add: short_audio_def windowSize_def)
  from short_audio_empty_chart [OF load len] load show ?thesis
    by (simp add: short_audio_def)
qed

text \<open>
  C5 (failure). When \<^verbatim>\<open>fetch\<close>, \<^verbatim>\<open>arrayBuffer\<close>, the \<^verbatim>\<open>AudioContext\<close> constructor or
  \<^verbatim>\<open>decodeAudioData\<close> throws, the function returns the empty chart and logs the exception.
  Nothing else is returned: the result is a chart and a log, never an exception.
\<close>

theorem failure_gives_empty_chart:
  assumes "fetch env url = Inl e
    \<or> (\<exists>res. fetch env url = Inr res
          \<and> (arrayBuffer env res = Inl e
              \<or> (\<exists>buffer. arrayBuffer env res = Inr buffer
                    \<and> (newAudioContext env = Some e
                        \<or> (newAudioContext env = None
                            \<and> decodeAudioData env buffer = Inl e)))))"
  shows "analyzeAudioAndGenerateChart env url = ([], [e])"
  using assms by (auto simp add: analyzeAudioAndGenerateChart_def load_audio_def)

theorem failure_gives_empty_chart_witness:
  "analyzeAudioAndGenerateChart offline_browser demo_url
     = ([], [''TypeError: Failed to fetch''])
   \<and> analyzeAudioAndGenerateChart corrupt_browser demo_url
     = ([], [''EncodingError: Unable to decode audio data''])"
proof -
  have "fetch offline_browser demo_url = Inl ''TypeError: Failed to fetch''"
    by (simp add: offline_browser_def)
  then have a: "analyzeAudioAndGenerateChart offline_browser demo_url
      = ([], [''TypeError: Failed to fetch''])"
    by (intro failure_gives_empty_chart) simp
  have "fetch corrupt_browser demo_url = Inr ()
      \<and> arrayBuffer corrupt_browser () = Inr ()
      \<and> newAudioContext corrupt_browser = None
      \<and> decodeAudioData corrupt_browser () = Inl ''EncodingError: Unable to decode audio data''"
    by (simp add: corrupt_browser_def)
  then have b: "analyzeAudioAndGenerateChart corrupt_browser demo_url
      = ([], [''EncodingError: Unable to decode audio data''])"
    by (intro failure_gives_empty_chart) blast
  from a b show ?thesis by simp
qed

section \<open>The rolling energy history\<close>

lemma push_history_member: "x \<in> set (push_history h x)"
  by (cases h) (simp_all add: push_history_def Let_def historySize_def)

lemma push_history_inv: "history_inv h \<Longrightarrow> 0 \<le> x \<Longrightarrow> history_inv (push_history h x)"
proof (cases h)
  case Nil
  assume "0 \<le> x"
  with Nil show ?thesis by (simp add: push_history_def history_inv_def Let_def historySize_def)
next
  case (Cons y ys)
  assume "history_inv h" "0 \<le> x"
  with Cons show ?thesis by (auto simp add: push_history_def history_inv_def Let_def)
qed

lemma energy_history_inv: "history_inv (energyHistory (state_at data sr k))"
proof (induction k)
  case 0
  show ?case by (simp add: initial_def history_inv_def)
next
  case (Suc k)
  then show ?case
    by (simp add: frame_step_energyHistory push_history_inv rms_of_nonneg)
qed

lemma member_le_sum_list:
  "x \<in> set xs \<Longrightarrow> \<forall>y \<in> set xs. 0 \<le> y \<Longrightarrow> x \<le> sum_list (xs :: real list)"
proof (induction xs)
  case Nil
  then show ?case by simp
next
  case (Cons a xs)
  have "0 \<le> sum_list xs" using Cons.prems(2) by (simp add: sum_list_nonneg)
  moreover have "0 \<le> a" using Cons.prems(2) by simp
  ultimately show ?case using Cons by auto
qed

lemma mean_lower_bound:
  assumes inv: "history_inv h" and mem: "x \<in> set h" and x: "0 \<le> x"
  shows "x / real historySize \<le> mean h"
proof -
  from inv have nonneg: "\<forall>y \<in> set h. 0 \<le> y" and len: "length h \<le> historySize"
    by (simp_all add: history_inv_def)
  from mem have pos: "0 < length h" by (cases h) simp_all
  from mem nonneg have le: "x \<le> sum_list h" by (rule member_le_sum_list)
  have "x / real historySize \<le> x / real (length h)"
    using x pos len by (simp add: frac_le)
  also have "\<dots> \<le> sum_list h / real (length h)"
    using le pos by (simp add: divide_right_mono)
  finally show ?thesis by (simp add: mean_sum_list)
qed

section \<open>Properties of a single frame\<close>

text \<open>
  C6 (no division by zero). On a frame where a beat is accepted, that is, where the
  iteration pushes a note, the divisor \<^verbatim>\<open>avgEnergy\<close> of \<^verbatim>\<open>intensity = rms / avgEnergy\<close>,
  the mean of the energy history after the current rms has been pushed, is at least
  0.06 / 50 and so strictly positive. The frame's rms is at least 0.06.
\<close>

theorem accepted_beat_avgEnergy_positive:
  assumes "notes (state_at data sr (Suc k)) \<noteq> notes (state_at data sr k)"
  shows "let rms = rms_of (slice data (k * hopSize) (k * hopSize + windowSize));
             avgEnergy = mean (push_history (energyHistory (state_at data sr k)) rms)
         in 0.06 \<le> rms \<and> 0.06 / 50 \<le> avgEnergy \<and> 0 < avgEnergy"
proof -
  let ?rms = "rms_of (slice data (k * hopSize) (k * hopSize + windowSize))"
  let ?h = "push_history (energyHistory (state_at data sr k)) ?rms"
  from assms have "\<not> ?rms < 0.06"
    by (intro frame_step_accepted(1) [of data sr _ "state_at data sr k"]) simp
  then have rms: "0.06 \<le> ?rms" by simp
  then have "0 \<le> ?rms" by simp
  with energy_history_inv [of data sr k] have "history_inv ?h"
    by (simp add: push_history_inv)
  then have "?rms / real historySize \<le> mean ?h"
    using push_history_member \<open>0 \<le> ?rms\<close> by (rule mean_lower_bound)
  moreover have "0.06 / 50 \<le> ?rms / real historySize"
    using rms by (simp add: historySize_def)
  ultimately have "0.06 / 50 \<le> mean ?h" by (rule order_trans [rotated])
  moreover from this have "0 < mean ?h" by simp
  ultimately show ?thesis using rms by (simp add: Let_def)
qed

theorem accepted_beat_avgEnergy_positive_witness:
  "notes (state_at demo_samples 8000 (Suc 4)) \<noteq> notes (state_at demo_samples 8000 4)
   \<and> (let rms = rms_of (slice demo_samples (4 * hopSize) (4 * hopSize + windowSize));
           avgEnergy = mean (push_history (energyHistory (state_at demo_samples 8000 4)) rms)
       in 0.06 \<le> rms \<and> 0.06 / 50 \<le> avgEnergy \<and> 0 < avgEnergy)"
proof -
  have five: "Suc 4 = (5::nat)" by simp
  have acc: "notes (state_at demo_samples 8000 (Suc 4)) \<noteq> notes (state_at demo_samples 8000 4)"
    by (simp only: five demo_state_5 demo_state_4) simp
  from acc accepted_beat_avgEnergy_positive [OF acc] show ?thesis by (rule conjI)
qed

section \<open>What an iteration records\<close>




lemma spectrum_of_length: "length (spectrum_of frame) = 40"
  by (simp add: spectrum_of_def)




text \<open>
  C8 (placement). On a frame where a beat is accepted, the pushed note has the frame's
  time, and its hand, cut direction, lane and layer are those of the table of the
  specification, read at \<open>isStream = (time - lastNoteTime < 0.22)\<close>,
  \<open>intensity = rms / avgEnergy\<close> and the hand of the note before.
\<close>

theorem accepted_beat_placement:
  assumes "notes (state_at data sr (Suc k)) \<noteq> notes (state_at data sr k)"
  shows "let st = state_at data sr k;
             n = last (notes (state_at data sr (Suc k)));
             rms = rms_of (slice data (k * hopSize) (k * hopSize + windowSize));
             t = real (k * hopSize) / sr;
             intensity = rms / mean (push_history (energyHistory st) rms)
         in time n = t
            \<and> (hand n, cutDirection n, lineIndex n, lineLayer n)
                = table_spec (t - lastNoteTime st < 0.22) intensity (lastHand st)"
proof -
  from assms have acc: "notes (frame_step data sr (k * hopSize) (state_at data sr k))
      \<noteq> notes (state_at data sr k)"
    by simp
  from frame_step_accepted(3) [OF acc] frame_step_accepted(4) [OF acc]
  show ?thesis
    by (simp only: Let_def state_at.simps place_table)
qed

theorem accepted_beat_placement_witness:
  "notes (state_at demo_samples 8000 (Suc 29)) \<noteq> notes (state_at demo_samples 8000 29)
   \<and> (let st = state_at demo_samples 8000 29;
           n = last (notes (state_at demo_samples 8000 (Suc 29)));
           rms = rms_of (slice demo_samples (29 * hopSize) (29 * hopSize + windowSize));
           t = real (29 * hopSize) / 8000;
           intensity = rms / mean (push_history (energyHistory st) rms)
       in time n = t
          \<and> (hand n, cutDirection n, lineIndex n, lineLayer n)
              = table_spec (t - lastNoteTime st < 0.22) intensity (lastHand st))"
proof -
  have thirty: "Suc 29 = (30::nat)" by simp
  have acc: "notes (state_at demo_samples 8000 (Suc 29)) \<noteq> notes (state_at demo_samples 8000 29)"
    by (simp only: thirty demo_state_30 demo_state_29) simp
  from acc accepted_beat_placement [OF acc] show ?thesis by (rule conjI)
qed

end
